theory Spec2Isabelle
  imports Main "HOL-Library.Sublist"
begin

section \<open>Python string primitives used by the document pipeline\<close>

text \<open>
  A Python \<open>str\<close> is modelled as a \<open>string\<close>, one \<open>char\<close> per code point; the
  embedding covers the code points below 256, on which the functions below behave as the
  Python built-ins do (\<open>str.lower\<close>, \<open>str.isspace\<close>, the \<open>\w\<close> class of \<open>re\<close>).
\<close>

definition lower_char :: "char \<Rightarrow> char" where
  "lower_char c =
     (let n = (of_char c :: int)
      in if (65 \<le> n \<and> n \<le> 90) \<or> (192 \<le> n \<and> n \<le> 222 \<and> n \<noteq> 215)
         then char_of (n + 32) else c)"

definition lower :: "string \<Rightarrow> string" where
  "lower s = map lower_char s"

text \<open>The characters that \<open>str.strip()\<close> and \<open>str.split()\<close> treat as whitespace.\<close>

definition is_space :: "char \<Rightarrow> bool" where
  "is_space c =
     (let n = (of_char c :: int)
      in (9 \<le> n \<and> n \<le> 13) \<or> (28 \<le> n \<and> n \<le> 32) \<or> n = 133 \<or> n = 160)"

definition strip :: "string \<Rightarrow> string" where
  "strip s = rev (dropWhile is_space (rev (dropWhile is_space s)))"

text \<open>\<open>needle in hay\<close> on strings: \<open>needle\<close> occurs as a contiguous run of \<open>hay\<close>.\<close>

fun str_in :: "string \<Rightarrow> string \<Rightarrow> bool" where
  "str_in needle [] = (needle = [])"
| "str_in needle (c # cs) = (prefix needle (c # cs) \<or> str_in needle cs)"

text \<open>\<open>s.split(sep)\<close> for a one-character separator: always at least one piece.\<close>

fun cons_first :: "char \<Rightarrow> string list \<Rightarrow> string list" where
  "cons_first c [] = [[c]]"
| "cons_first c (p # ps) = (c # p) # ps"

fun split_on :: "char \<Rightarrow> string \<Rightarrow> string list" where
  "split_on sep [] = [[]]"
| "split_on sep (c # cs) =
     (if c = sep then [] # split_on sep cs else cons_first c (split_on sep cs))"

text \<open>\<open>s.split()\<close> without argument: the maximal runs of non-whitespace characters.\<close>

function split_ws :: "string \<Rightarrow> string list" where
  "split_ws s =
     (let t = dropWhile is_space s
      in if t = [] then []
         else takeWhile (\<lambda>c. \<not> is_space c) t # split_ws (dropWhile (\<lambda>c. \<not> is_space c) t))"
  by pat_completeness auto
termination
proof (relation "measure length")
  show "wf (measure (length :: string \<Rightarrow> nat))" by simp
next
  fix s t :: string
  assume t: "t = dropWhile is_space s" and ne: "t \<noteq> []"
  have "\<not> is_space (hd t)"
    using t ne hd_dropWhile by metis
  then have "dropWhile (\<lambda>c. \<not> is_space c) t = dropWhile (\<lambda>c. \<not> is_space c) (tl t)"
    using ne by (cases t) simp_all
  then have "length (dropWhile (\<lambda>c. \<not> is_space c) t) \<le> length (tl t)"
    using length_dropWhile_le [of "\<lambda>c. \<not> is_space c" "tl t"] by simp
  also have "\<dots> < length t" using ne by (cases t) simp_all
  also have "\<dots> \<le> length s" using t by (simp add: length_dropWhile_le)
  finally show "(dropWhile (\<lambda>c. \<not> is_space c) t, s) \<in> measure length" by simp
qed

text \<open>\<open>sep.join(xs)\<close>.\<close>

fun join :: "string \<Rightarrow> string list \<Rightarrow> string" where
  "join sep [] = []"
| "join sep [x] = x"
| "join sep (x # y # ys) = x @ sep @ join sep (y # ys)"

section \<open>Document classifier\<close>

text \<open>\<open>any(term in text_lower for term in [...])\<close>\<close>

definition any_in :: "string list \<Rightarrow> string \<Rightarrow> bool" where
  "any_in terms t = list_ex (\<lambda>term. str_in term t) terms"

definition identify_document_type :: "string \<Rightarrow> string" where
  "identify_document_type text =
     (let text_lower = lower text
      in if any_in [''lease'', ''rental'', ''tenant'', ''landlord''] text_lower
           then ''Rental Agreement''
         else if any_in [''loan'', ''borrower'', ''lender'', ''interest rate'', ''repayment'']
                   text_lower
           then ''Loan Agreement''
         else if any_in [''terms of service'', ''terms and conditions'', ''user agreement'']
                   text_lower
           then ''Terms of Service''
         else if any_in [''employment'', ''employee'', ''employer'', ''non-compete''] text_lower
           then ''Employment Contract''
         else if any_in [''nda'', ''non-disclosure'', ''confidentiality''] text_lower
           then ''Non-Disclosure Agreement''
         else if any_in [''purchase'', ''sale'', ''buyer'', ''seller''] text_lower
           then ''Purchase Agreement''
         else ''Legal Document'')"

text \<open>
  The classifier as the specification words it: a fixed ordered list of
  (keyword set, label) rules tried in order on the lower-cased text, first match wins,
  with the generic label as fallback.
\<close>

definition type_rules :: "(string list \<times> string) list" where
  "type_rules =
     [([''lease'', ''rental'', ''tenant'', ''landlord''], ''Rental Agreement''),
      ([''loan'', ''borrower'', ''lender'', ''interest rate'', ''repayment''], ''Loan Agreement''),
      ([''terms of service'', ''terms and conditions'', ''user agreement''], ''Terms of Service''),
      ([''employment'', ''employee'', ''employer'', ''non-compete''], ''Employment Contract''),
      ([''nda'', ''non-disclosure'', ''confidentiality''], ''Non-Disclosure Agreement''),
      ([''purchase'', ''sale'', ''buyer'', ''seller''], ''Purchase Agreement'')]"

fun first_match :: "(string list \<times> string) list \<Rightarrow> string \<Rightarrow> string" where
  "first_match [] t = ''Legal Document''"
| "first_match ((keys, label) # rules) t =
     (if any_in keys t then label else first_match rules t)"




section \<open>Section segmenter\<close>

definition newline :: char where
  "newline = CHR 0x0A"

text \<open>
  A Python \<open>dict\<close> keeps its keys in insertion order; \<open>d[k] = v\<close> replaces the
  value of a key that is present, at its place, and appends a new key at the end.
\<close>

fun dict_set :: "'k \<Rightarrow> 'v \<Rightarrow> ('k \<times> 'v) list \<Rightarrow> ('k \<times> 'v) list" where
  "dict_set k v [] = [(k, v)]"
| "dict_set k v ((k', v') # kvs) =
     (if k' = k then (k, v) # kvs else (k', v') # dict_set k v kvs)"

definition section_headings :: "string list" where
  "section_headings =
     [''parties'', ''recitals'', ''terms'', ''definitions'', ''obligations'',
      ''payment'', ''confidentiality'', ''term and termination'', ''warranties'',
      ''limitation of liability'', ''indemnification'', ''governing law'',
      ''dispute resolution'', ''miscellaneous'', ''notices'', ''signatures'']"

text \<open>The inner loop that sets \<open>is_heading\<close> for a stripped, non-empty line.\<close>

definition is_heading :: "string \<Rightarrow> bool" where
  "is_heading line_stripped =
     (let line_lower = lower line_stripped
      in list_ex (\<lambda>heading. str_in heading line_lower \<and> length (split_ws line_stripped) < 8)
           section_headings)"

record seg_state =
  sections :: "(string \<times> string) list"
  current_section :: string
  section_content :: "string list"

text \<open>\<open>if section_content and current_section: sections[current_section] = ...\<close>\<close>

definition flush :: "seg_state \<Rightarrow> (string \<times> string) list" where
  "flush st =
     (if section_content st \<noteq> [] \<and> current_section st \<noteq> []
      then dict_set (current_section st) (join [newline] (section_content st)) (sections st)
      else sections st)"

text \<open>One iteration of the loop over the lines.\<close>

definition seg_line :: "seg_state \<Rightarrow> string \<Rightarrow> seg_state" where
  "seg_line st line =
     (let line_stripped = strip line
      in if line_stripped = [] then st
         else if is_heading line_stripped
           then \<lparr>sections = flush st, current_section = line_stripped, section_content = []\<rparr>
           else st\<lparr>section_content := section_content st @ [line_stripped]\<rparr>)"

definition seg_init :: seg_state where
  "seg_init = \<lparr>sections = [], current_section = ''Introduction'', section_content = []\<rparr>"

definition segment_lines :: "string list \<Rightarrow> (string \<times> string) list" where
  "segment_lines ls = flush (foldl seg_line seg_init ls)"

definition identify_key_sections :: "string \<Rightarrow> (string \<times> string) list" where
  "identify_key_sections text = segment_lines (split_on newline text)"






section \<open>Regular-expression operations of the rewriter and the risk scanner\<close>

text \<open>The class \<open>\w\<close> of \<open>re\<close> on a \<open>str\<close> pattern.\<close>

definition is_word_char :: "char \<Rightarrow> bool" where
  "is_word_char c =
     (let n = (of_char c :: int)
      in (48 \<le> n \<and> n \<le> 57) \<or> (65 \<le> n \<and> n \<le> 90) \<or> n = 95 \<or> (97 \<le> n \<and> n \<le> 122)
         \<or> n = 170 \<or> n = 178 \<or> n = 179 \<or> n = 181 \<or> n = 185 \<or> n = 186
         \<or> (188 \<le> n \<and> n \<le> 190) \<or> (192 \<le> n \<and> n \<le> 214) \<or> (216 \<le> n \<and> n \<le> 246)
         \<or> 248 \<le> n)"

text \<open>
  \<open>\b\<close> holds between two neighbouring positions when exactly one of them is a word
  character; the position before the start and after the end of the text is \<open>None\<close>.
\<close>

fun is_word :: "char option \<Rightarrow> bool" where
  "is_word None = False"
| "is_word (Some c) = is_word_char c"

definition word_boundary :: "char option \<Rightarrow> char option \<Rightarrow> bool" where
  "word_boundary a b = (is_word a \<noteq> is_word b)"

fun first_char :: "string \<Rightarrow> char option" where
  "first_char [] = None"
| "first_char (c # cs) = Some c"

text \<open>
  The literal \<open>p\<close> matches at the start of \<open>s\<close>, character by character; with
  \<open>ic\<close> (\<open>re.IGNORECASE\<close>) the characters are compared up to letter case.
\<close>

fun starts_with :: "bool \<Rightarrow> string \<Rightarrow> string \<Rightarrow> bool" where
  "starts_with ic [] s = True"
| "starts_with ic (p # ps) [] = False"
| "starts_with ic (p # ps) (c # cs) =
     (if (if ic then lower_char p = lower_char c else p = c)
      then starts_with ic ps cs else False)"

text \<open>
  A literal pattern matches at the start of \<open>s\<close> under \<open>re.IGNORECASE\<close>; with
  \<open>wb\<close> the pattern is \<open>\bpat\b\<close>, and \<open>prev\<close> is the character before \<open>s\<close>.
\<close>

definition lit_match :: "bool \<Rightarrow> string \<Rightarrow> char option \<Rightarrow> string \<Rightarrow> bool" where
  "lit_match wb pat prev s =
     (if pat = [] then False
      else if starts_with True pat s
        then (if wb
              then word_boundary prev (first_char s)
                   \<and> word_boundary (Some (last (take (length pat) s)))
                        (first_char (drop (length pat) s))
              else True)
      else False)"

text \<open>
  \<open>re.sub(pattern, repl, text, flags=re.IGNORECASE)\<close> for such a pattern: the matches
  are taken from left to right without overlap. \<open>skip\<close> counts the characters of the
  current match that are still to be consumed.
\<close>

fun re_sub :: "bool \<Rightarrow> string \<Rightarrow> string \<Rightarrow> nat \<Rightarrow> char option \<Rightarrow> string \<Rightarrow> string" where
  "re_sub wb pat repl skip prev [] = []"
| "re_sub wb pat repl skip prev (c # cs) =
     (if 0 < skip then re_sub wb pat repl (skip - 1) (Some c) cs
      else if lit_match wb pat prev (c # cs)
        then repl @ re_sub wb pat repl (length pat - 1) (Some c) cs
      else c # re_sub wb pat repl 0 (Some c) cs)"

text \<open>
  \<open>re.split(r'(?<=[.!?]) +', text)\<close>: a separator is a maximal run of spaces that
  directly follows one of \<open>.\<close>, \<open>!\<close>, \<open>?\<close>.
\<close>

function split_sentences :: "char option \<Rightarrow> string \<Rightarrow> string list" where
  "split_sentences prev [] = [[]]"
| "split_sentences prev (c # cs) =
     (if c = CHR '' '' \<and> prev \<in> {Some CHR ''.'', Some CHR ''!'', Some CHR ''?''}
      then [] # split_sentences (Some CHR '' '') (dropWhile (\<lambda>x. x = CHR '' '') cs)
      else cons_first c (split_sentences (Some c) cs))"
  by pat_completeness auto
termination
  by (relation "measure (\<lambda>(prev, s). length s)") (auto simp: length_dropWhile_le less_Suc_eq_le)

text \<open>\<open>re.split(r', |; |: ', sentence)\<close>\<close>

fun split_clauses :: "string \<Rightarrow> string list" where
  "split_clauses [] = [[]]"
| "split_clauses [c] = [[c]]"
| "split_clauses (c # d # cs) =
     (if c \<in> {CHR '','', CHR '';'', CHR '':''} \<and> d = CHR '' ''
      then [] # split_clauses cs
      else cons_first c (split_clauses (d # cs)))"

text \<open>
  The patterns of the risk scanner are built from literals, \<open>.*\<close>, concatenation and
  alternation. \<open>rx_match\<close> lists the rests of the text after each way the pattern can
  match at its start; \<open>.\<close> matches every character but the newline.
\<close>

datatype rx = Lit string | AnyStar | Cat rx rx | Alt rx rx

fun any_star :: "string \<Rightarrow> string list" where
  "any_star [] = [[]]"
| "any_star (c # cs) = (c # cs) # (if c = newline then [] else any_star cs)"

fun rx_match :: "bool \<Rightarrow> rx \<Rightarrow> string \<Rightarrow> string list" where
  "rx_match ic (Lit p) s = (if starts_with ic p s then [drop (length p) s] else [])"
| "rx_match ic AnyStar s = any_star s"
| "rx_match ic (Cat a b) s = concat (map (rx_match ic b) (rx_match ic a s))"
| "rx_match ic (Alt a b) s = rx_match ic a s @ rx_match ic b s"

text \<open>\<open>re.search\<close> as a truth value: the pattern matches at some position.\<close>

fun rx_search :: "bool \<Rightarrow> rx \<Rightarrow> string \<Rightarrow> bool" where
  "rx_search ic r [] = (rx_match ic r [] \<noteq> [])"
| "rx_search ic r (c # cs) = (rx_match ic r (c # cs) \<noteq> [] \<or> rx_search ic r cs)"

section \<open>Clause rewriter\<close>

definition legal_terms :: "(string \<times> string) list" where
  "legal_terms =
     [(''hereinafter'', ''from now on''),
      (''heretofore'', ''until now''),
      (''wherein'', ''in which''),
      (''whereby'', ''by which''),
      (''hereby'', ''by this''),
      (''herein'', ''in this document''),
      (''hereof'', ''of this''),
      (''hereto'', ''to this''),
      (''pursuant to'', ''according to''),
      (''notwithstanding'', ''despite''),
      (''indemnify'', ''compensate for harm or loss''),
      (''liable'', ''legally responsible''),
      (''obligation'', ''duty''),
      (''covenant'', ''formal agreement''),
      (''warranty'', ''promise or guarantee''),
      (''jurisdiction'', ''area of legal authority''),
      (''arbitration'', ''resolving disputes outside of court''),
      (''litigation'', ''taking legal action through court''),
      (''force majeure'', ''unavoidable circumstances''),
      (''confidentiality'', ''keeping information private'')]"

definition patterns :: "(string \<times> string) list" where
  "patterns =
     [(''notwithstanding anything to the contrary contained herein'',
         ''despite anything else in this document''),
      (''in the event that'', ''if''),
      (''for the purpose of'', ''to''),
      (''prior to'', ''before''),
      (''subsequent to'', ''after''),
      (''pursuant to'', ''under''),
      (''without limiting the generality of the foregoing'', ''including but not limited to''),
      (''set forth herein'', ''described in this document''),
      (''shall be deemed to be'', ''will be considered''),
      (''is hereby granted'', ''is given'')]"

text \<open>The replacement \<open>f'<span class="legal-term">{term}</span> ({explanation})'\<close>.\<close>

definition annotation :: "string \<Rightarrow> string \<Rightarrow> string" where
  \<open>annotation term explanation =
     ''<span class="legal-term">'' @ term @ ''</span> ('' @ explanation @ '')''\<close>

text \<open>The first loop: one \<open>re.sub\<close> of \<open>\bterm\b\<close> per entry of the table.\<close>

definition annotate_jargon :: "string \<Rightarrow> string" where
  "annotate_jargon text =
     foldl (\<lambda>simplified_text (term, explanation).
              re_sub True term (annotation term explanation) 0 None simplified_text)
       text legal_terms"

text \<open>The second loop: one \<open>re.sub\<close> per boilerplate phrase.\<close>

definition replace_patterns :: "string \<Rightarrow> string" where
  "replace_patterns text =
     foldl (\<lambda>simplified_text (pattern, replacement).
              re_sub False pattern replacement 0 None simplified_text)
       text patterns"

text \<open>The body of the loop over the sentences: what one sentence adds to the result.\<close>

definition break_sentence :: "string \<Rightarrow> string list" where
  "break_sentence sentence =
     (if 25 < length (split_ws sentence)
      then (let clauses = split_clauses sentence
            in if 1 < length clauses then clauses else [sentence])
      else [sentence])"

definition simplify_legal_text :: "string \<Rightarrow> string" where
  "simplify_legal_text text =
     (if strip text = [] then []
      else let simplified_text = replace_patterns (annotate_jargon text);
               sentences = split_sentences None simplified_text;
               simplified_sentences = concat (map break_sentence sentences)
           in join ''. '' simplified_sentences)"

text \<open>
  The vocabulary of the rewriter's properties: the pattern \<open>\bpat\b\<close> (or \<open>pat\<close>)
  matches somewhere in the text, and some jargon term of the table does.
\<close>

fun lit_search :: "bool \<Rightarrow> string \<Rightarrow> char option \<Rightarrow> string \<Rightarrow> bool" where
  "lit_search wb pat prev [] = False"
| "lit_search wb pat prev (c # cs) =
     (lit_match wb pat prev (c # cs) \<or> lit_search wb pat (Some c) cs)"

definition has_jargon :: "string \<Rightarrow> bool" where
  "has_jargon text = list_ex (\<lambda>entry. lit_search True (fst entry) None text) legal_terms"

definition reannotated :: "string \<times> string \<Rightarrow> bool" where
  \<open>reannotated entry =
     (annotate_jargon (annotation (fst entry) (snd entry)) =
        ''<span class="legal-term">'' @ annotation (fst entry) (snd entry)
          @ ''</span> ('' @ snd entry @ '')'')\<close>

section \<open>Risk scanner\<close>

definition risk_patterns :: "(rx \<times> string \<times> string) list" where
  "risk_patterns =
     [(Alt (Lit ''indemnify'') (Lit ''hold harmless''),
         ''You might be responsible for paying for damages or losses'', ''high''),
      (Alt (Cat (Lit ''liability'') (Cat AnyStar (Lit ''limit'')))
           (Cat (Lit ''limit'') (Cat AnyStar (Lit ''liability''))),
         ''There may be limits on how much you can claim if something goes wrong'', ''medium''),
      (Alt (Lit ''confidentiality'') (Lit ''non-disclosure''),
         ''You may be required to keep information secret'', ''medium''),
      (Alt (Cat (Lit ''termination'') (Cat AnyStar (Lit ''without cause'')))
           (Cat (Lit ''termination'') (Cat AnyStar (Lit ''at will''))),
         ''The agreement might be ended without a specific reason'', ''medium''),
      (Alt (Cat (Lit ''arbitration'') (Cat AnyStar (Lit ''dispute'')))
           (Cat (Lit ''dispute'') (Cat AnyStar (Lit ''arbitration''))),
         ''You might not be able to sue in court and must use arbitration instead'', ''medium''),
      (Cat (Lit ''governing law'') (Cat AnyStar (Lit ''jurisdiction'')),
         ''Disputes might be handled in a location that's not convenient for you'', ''low''),
      (Alt (Lit ''automatic renewal'') (Lit ''evergreen''),
         ''The agreement might renew automatically unless you cancel it'', ''medium''),
      (Alt (Lit ''non-compete'') (Lit ''non-solicit''),
         ''You might be restricted from working with competitors or clients'', ''high''),
      (Lit ''liquidated damages'',
         ''You might have to pay a predetermined amount if you breach the agreement'', ''high''),
      (Cat (Lit ''assignment'') (Cat AnyStar (Lit ''without consent'')),
         ''The other party might transfer the agreement without your permission'', ''medium'')]"

text \<open>The loop of \<open>find_example_clauses\<close>, with its \<open>break\<close> at three examples.\<close>

fun collect_examples :: "rx \<Rightarrow> string list \<Rightarrow> string list \<Rightarrow> string list" where
  "collect_examples pattern examples [] = examples"
| "collect_examples pattern examples (sentence # sentences) =
     (if rx_search True pattern sentence
      then (let examples' = examples @ [strip sentence]
            in if 3 \<le> length examples' then examples'
               else collect_examples pattern examples' sentences)
      else collect_examples pattern examples sentences)"

definition find_example_clauses :: "string \<Rightarrow> rx \<Rightarrow> string list" where
  "find_example_clauses text pattern = collect_examples pattern [] (split_sentences None text)"

record risk =
  description :: string
  level :: string
  examples :: "string list"

definition identify_risks :: "string \<Rightarrow> risk list" where
  "identify_risks text =
     (let text_lower = lower text
      in foldl (\<lambda>risks (pattern, descr, risk_level).
                  if rx_search False pattern text_lower
                  then risks @ [\<lparr>description = descr, level = risk_level,
                                  examples = find_example_clauses text pattern\<rparr>]
                  else risks)
           [] risk_patterns)"

section \<open>Summary generator\<close>

text \<open>
  The bullet of the section lines is the code point 8226, outside the range of \<open>char\<close>;
  in the output it stands as its three UTF-8 bytes.
\<close>

definition bullet :: string where
  "bullet = [CHR 0xE2, CHR 0x80, CHR 0xA2]"

text \<open>The \<open>if\<close>/\<open>elif\<close> chain over the document type: the items appended to the summary.\<close>

definition checklist :: "string \<Rightarrow> string list" where
  "checklist document_type =
     (if document_type = ''Rental Agreement''
        then [''- Duration of the lease and renewal terms'',
              ''- Rent amount, due date, and late fees'',
              ''- Security deposit details and return conditions'',
              ''- Maintenance responsibilities'',
              ''- Rules about pets, guests, and property use'']
      else if document_type = ''Loan Agreement''
        then [''- Principal amount and interest rate'',
              ''- Repayment schedule and due dates'',
              ''- Prepayment penalties or options'',
              ''- Default conditions and consequences'',
              ''- Collateral requirements if any'']
      else if document_type = ''Terms of Service''
        then [''- Your rights and responsibilities as a user'',
              ''- How your data is collected and used'',
              ''- Content ownership and intellectual property'',
              ''- Limitations of the service provider's liability'',
              ''- Dispute resolution process'']
      else [])"

text \<open>
  \<open>textwrap.shorten(section_content, width=150, placeholder='...')\<close> is a function of
  the standard library; the summary generator takes it as the parameter \<open>shorten\<close>.
\<close>

definition generate_summary ::
  "(string \<Rightarrow> string) \<Rightarrow> string \<Rightarrow> (string \<times> string) list \<Rightarrow> string" where
  "generate_summary shorten document_type secs =
     ''This is a '' @ document_type @ '' that includes the following key sections:''
       @ [newline, newline]
     @ concat (map (\<lambda>(section_name, section_content).
                      bullet @ '' '' @ section_name @ '': '' @ shorten section_content @ [newline])
                 secs)
     @ [newline] @ ''Key things to pay attention to:'' @ [newline]
     @ concat (map (\<lambda>item. item @ [newline]) (checklist document_type))"

section \<open>Text extraction and the per-document run\<close>

text \<open>
  The uploaded file has a name and a payload. The readers of the PDF and DOCX libraries
  and the UTF-8 decoder are parameters: each yields the text parts, or the message of the
  exception it raises.
\<close>

record 'f uploaded_file =
  name :: string
  payload :: 'f

record 'f library =
  pdf_pages :: "'f \<Rightarrow> string + string list"
  docx_paragraphs :: "'f \<Rightarrow> string + string list"
  decode_utf8 :: "'f \<Rightarrow> string + string"
  shorten :: "string \<Rightarrow> string"

definition extract_text_from_pdf :: "'f library \<Rightarrow> 'f \<Rightarrow> string + string" where
  "extract_text_from_pdf lib file =
     (case pdf_pages lib file of
        Inl msg \<Rightarrow> Inl msg
      | Inr pages \<Rightarrow> Inr (foldl (\<lambda>text page. text @ page @ [newline]) [] pages))"

definition extract_text_from_docx :: "'f library \<Rightarrow> 'f \<Rightarrow> string + string" where
  "extract_text_from_docx lib file =
     (case docx_paragraphs lib file of
        Inl msg \<Rightarrow> Inl msg
      | Inr paragraphs \<Rightarrow> Inr (foldl (\<lambda>text paragraph. text @ paragraph @ [newline]) [] paragraphs))"

text \<open>
  \<open>file.name.split('.')[-1].lower()\<close>: the split has at least one piece, so the last
  piece exists. A \<open>ValueError\<close> is the value \<open>Inl\<close> of its message.
\<close>

definition file_type_of :: "string \<Rightarrow> string" where
  "file_type_of file_name = lower (last (split_on CHR ''.'' file_name))"

definition extract_text_from_file :: "'f library \<Rightarrow> 'f uploaded_file \<Rightarrow> string + string" where
  "extract_text_from_file lib file =
     (let file_type = file_type_of (name file)
      in if file_type = ''pdf'' then extract_text_from_pdf lib (payload file)
         else if file_type = ''docx'' then extract_text_from_docx lib (payload file)
         else if file_type = ''txt'' then decode_utf8 lib (payload file)
         else Inl (''Unsupported file type: '' @ file_type))"

text \<open>
  The two shapes of the result dictionary: the failure carries the error message only,
  the success all analysis fields (\<open>key_sections\<close> is the entry \<open>"sections"\<close>).
\<close>

record analysis =
  original_text :: string
  simplified_text :: string
  document_type :: string
  key_sections :: "(string \<times> string) list"
  risks :: "risk list"
  summary :: string
  file_name :: string

datatype result = Failure string | Success analysis

definition process_document :: "'f library \<Rightarrow> 'f uploaded_file \<Rightarrow> result" where
  "process_document lib file =
     (case extract_text_from_file lib file of
        Inl msg \<Rightarrow> Failure msg
      | Inr text \<Rightarrow>
          (let doc_type = identify_document_type text;
               secs = identify_key_sections text;
               simplified = simplify_legal_text text;
               found_risks = identify_risks text;
               summ = generate_summary (shorten lib) doc_type secs
           in Success \<lparr>original_text = text, simplified_text = simplified,
                 document_type = doc_type, key_sections = secs, risks = found_risks,
                 summary = summ, file_name = name file\<rparr>))"

section \<open>Properties\<close>

subsection \<open>Classifier\<close>

lemma str_in_sublist: "str_in n h = sublist n h"
  by (induction h) (auto simp: sublist_Cons_right)



text \<open>
  Claim C1. The classifier returns exactly one label: the label of the first rule, in the
  order Rental, Loan, Terms of Service, Employment, NDA, Purchase, one of whose keywords
  occurs in the lower-cased text, and the generic label when no rule matches. A text that
  contains both "lease" and "loan" up to letter case is a Rental Agreement.
\<close>

theorem classifier_first_match:
  "identify_document_type text = first_match type_rules (lower text)
   \<and> identify_document_type text \<in>
       {''Rental Agreement'', ''Loan Agreement'', ''Terms of Service'', ''Employment Contract'',
        ''Non-Disclosure Agreement'', ''Purchase Agreement'', ''Legal Document''}
   \<and> (str_in ''lease'' (lower text) \<and> str_in ''loan'' (lower text)
        \<longrightarrow> identify_document_type text = ''Rental Agreement'')"
proof -
  have a: "identify_document_type text = first_match type_rules (lower text)"
    by (simp add: identify_document_type_def type_rules_def Let_def)
  have b: "identify_document_type text \<in>
       {''Rental Agreement'', ''Loan Agreement'', ''Terms of Service'', ''Employment Contract'',
        ''Non-Disclosure Agreement'', ''Purchase Agreement'', ''Legal Document''}"
    by (simp add: identify_document_type_def Let_def)
  have c: "str_in ''lease'' (lower text) \<Longrightarrow> identify_document_type text = ''Rental Agreement''"
    by (simp add: identify_document_type_def Let_def any_in_def)
  from a b c show ?thesis by blast
qed

theorem classifier_first_match_witness:
  "str_in ''lease'' (lower ''This LEASE secures the Loan'')
   \<and> str_in ''loan'' (lower ''This LEASE secures the Loan'')
   \<and> identify_document_type ''This LEASE secures the Loan'' = ''Rental Agreement''"
proof -
  have h1: "str_in ''lease'' (lower ''This LEASE secures the Loan'')" by code_simp
  have h2: "str_in ''loan'' (lower ''This LEASE secures the Loan'')" by code_simp
  from classifier_first_match [of "''This LEASE secures the Loan''"] h1 h2
  show ?thesis by blast
qed



subsection \<open>Segmenter\<close>

lemma cons_first_not_Nil: "cons_first c ps \<noteq> []"
  by (cases ps) simp_all


































subsection \<open>Clause rewriter\<close>

lemma strip_blank: "list_all is_space s \<Longrightarrow> strip s = []"
proof -
  assume "list_all is_space s"
  then have "dropWhile is_space s = []"
    by (induction s) simp_all
  then show ?thesis unfolding strip_def by (simp only: rev.simps dropWhile.simps)
qed

lemma lit_match_Nil: "\<not> lit_match wb pat prev []"
  by (cases pat) (simp_all add: lit_match_def)

lemma re_sub_no_match: "\<not> lit_search wb pat prev s \<Longrightarrow> re_sub wb pat repl 0 prev s = s"
  by (induction s arbitrary: prev) simp_all

lemma annotate_no_match:
  "\<forall>entry \<in> set ts. \<not> lit_search True (fst entry) None text \<Longrightarrow>
   foldl (\<lambda>simplified_text (term, explanation).
            re_sub True term (annotation term explanation) 0 None simplified_text) text ts = text"
  by (induction ts) (auto simp: re_sub_no_match)

text \<open>
  Claim C9. On the empty string and on every string of whitespace characters only the
  rewriter returns the empty string.
\<close>

theorem rewriter_blank_input:
  "list_all is_space text \<Longrightarrow> simplify_legal_text text = []"
  by (simp add: simplify_legal_text_def strip_blank)

theorem rewriter_blank_input_witness:
  "list_all is_space [CHR '' '', CHR 0x09, newline, CHR '' '']
   \<and> simplify_legal_text [CHR '' '', CHR 0x09, newline, CHR '' ''] = []
   \<and> list_all is_space [] \<and> simplify_legal_text [] = []"
proof -
  have h1: "list_all is_space [CHR '' '', CHR 0x09, newline, CHR '' '']" by code_simp
  have h2: "list_all is_space []" by simp
  from rewriter_blank_input [OF h1] rewriter_blank_input [OF h2] h1 h2 show ?thesis by simp
qed

text \<open>
  Claim C4, as stated, fails: the rewriter has no guard for text that is already annotated.
  Run on its own output for "hereinafter", it matches the term inside the span and
  annotates it a second time.
\<close>

theorem rewriter_idempotence_counterexample:
  \<open>simplify_legal_text ''hereinafter''
     = ''<span class="legal-term">hereinafter</span> (from now on)''
   \<and> simplify_legal_text (simplify_legal_text ''hereinafter'')
     = ''<span class="legal-term"><span class="legal-term">hereinafter</span> (from now on)</span> (from now on)''\<close>
  by code_simp

text \<open>
  Claim C4, amended. Jargon annotation leaves a text unchanged when no jargon term occurs
  in it as a whole word, up to letter case. On the annotated form of each of the twenty
  terms a second run is not the identity: it wraps the term inside the span into a
  further annotation.
\<close>

theorem rewriter_reannotates:
  "(\<not> has_jargon text \<longrightarrow> annotate_jargon text = text)
   \<and> list_all reannotated legal_terms"
proof
  show "\<not> has_jargon text \<longrightarrow> annotate_jargon text = text"
    unfolding has_jargon_def annotate_jargon_def
    by (simp add: list_ex_iff annotate_no_match)
  show "list_all reannotated legal_terms"
    by code_simp
qed

theorem rewriter_reannotates_witness:
  "\<not> has_jargon ''The tenant shall pay rent.''
   \<and> annotate_jargon ''The tenant shall pay rent.'' = ''The tenant shall pay rent.''"
proof -
  have h: "\<not> has_jargon ''The tenant shall pay rent.''" by code_simp
  from rewriter_reannotates [of "''The tenant shall pay rent.''"] h show ?thesis by blast
qed

subsection \<open>Risk scanner\<close>

lemma sublist_strip: "sublist (strip s) s"
proof -
  let ?t = "dropWhile is_space s"
  have "suffix (dropWhile is_space (rev ?t)) (rev ?t)" by (rule suffix_dropWhile)
  then have "prefix (rev (dropWhile is_space (rev ?t))) ?t"
    by (metis rev_rev_ident suffix_to_prefix)
  then have "sublist (strip s) ?t" by (simp add: strip_def)
  moreover have "sublist ?t s" using suffix_dropWhile by (rule suffix_imp_sublist)
  ultimately show ?thesis by (rule sublist_order.order_trans)
qed

lemma split_sentences_not_Nil: "split_sentences prev t \<noteq> []"
  by (cases t) (simp_all add: cons_first_not_Nil)

lemma split_sentences_pieces:
  "prefix (hd (split_sentences prev t)) t \<and> (\<forall>p \<in> set (split_sentences prev t). sublist p t)"
proof (induction prev t rule: split_sentences.induct)
  case (1 prev)
  then show ?case by simp
next
  case (2 prev c cs)
  show ?case
  proof (cases "c = CHR '' '' \<and> prev \<in> {Some CHR ''.'', Some CHR ''!'', Some CHR ''?''}")
    case True
    let ?r = "dropWhile (\<lambda>x. x = CHR '' '') cs"
    have "\<forall>p \<in> set (split_sentences (Some CHR '' '') ?r). sublist p ?r"
      using 2(1) True by blast
    moreover have "sublist ?r (c # cs)"
      by (meson suffix_dropWhile suffix_imp_sublist sublist_Cons_right)
    ultimately have "\<forall>p \<in> set (split_sentences (Some CHR '' '') ?r). sublist p (c # cs)"
      using sublist_order.order_trans by blast
    with True show ?thesis by simp
  next
    case False
    obtain q qs where q: "split_sentences (Some c) cs = q # qs"
      using split_sentences_not_Nil [of "Some c" cs] by (cases "split_sentences (Some c) cs") auto
    have eq: "split_sentences prev (c # cs) = (c # q) # qs"
      by (subst split_sentences.simps) (simp only: False if_False q cons_first.simps)
    have ih: "prefix q cs \<and> (\<forall>p \<in> set (q # qs). sublist p cs)"
      using 2(2) False q by auto
    then have "prefix (c # q) (c # cs)" by simp
    moreover from this have "sublist (c # q) (c # cs)" by (rule prefix_imp_sublist)
    moreover have "\<forall>p \<in> set qs. sublist p (c # cs)"
      using ih by (simp add: sublist_Cons_right)
    ultimately show ?thesis unfolding eq by simp
  qed
qed

lemma collect_examples_length:
  "length acc < 3 \<Longrightarrow> length (collect_examples pattern acc ss) \<le> 3"
  by (induction ss arbitrary: acc) (auto simp: Let_def)

lemma collect_examples_set:
  "set (collect_examples pattern acc ss) \<subseteq> set acc \<union> strip ` set ss"
proof (induction ss arbitrary: acc)
  case Nil
  then show ?case by simp
next
  case (Cons a ss)
  have 1: "set (collect_examples pattern (acc @ [strip a]) ss)
            \<subseteq> set acc \<union> strip ` set (a # ss)"
    using Cons.IH [of "acc @ [strip a]"] by auto
  have 2: "set (collect_examples pattern acc ss) \<subseteq> set acc \<union> strip ` set (a # ss)"
    using Cons.IH [of acc] by auto
  have 3: "set (acc @ [strip a]) \<subseteq> set acc \<union> strip ` set (a # ss)" by auto
  show ?case
    unfolding collect_examples.simps Let_def using 1 2 3 by (simp only: split: if_split) blast
qed

lemma find_example_clauses_bound: "length (find_example_clauses text pattern) \<le> 3"
  by (simp add: find_example_clauses_def collect_examples_length)

lemma find_example_clauses_verbatim:
  assumes "e \<in> set (find_example_clauses text pattern)"
  shows "sublist e text"
proof -
  from assms collect_examples_set [of pattern "[]" "split_sentences None text"]
  obtain s where s: "s \<in> set (split_sentences None text)" and e: "e = strip s"
    by (auto simp: find_example_clauses_def)
  have "sublist s text" using s split_sentences_pieces by blast
  with e sublist_strip [of s] show ?thesis using sublist_order.order_trans by blast
qed

lemma risks_from_patterns:
  "r \<in> set (foldl (\<lambda>risks (pattern, descr, risk_level).
                  if rx_search False pattern lowered
                  then risks @ [\<lparr>description = descr, level = risk_level,
                                  examples = find_example_clauses text pattern\<rparr>]
                  else risks) acc ps) \<Longrightarrow>
   r \<in> set acc \<or> (\<exists>pattern. examples r = find_example_clauses text pattern)"
proof (induction ps arbitrary: acc)
  case Nil
  then show ?case by simp
next
  case (Cons p ps)
  obtain pattern descr risk_level where p: "p = (pattern, descr, risk_level)" by (cases p)
  from Cons.prems p Cons.IH show ?case
    by (fastforce split: if_splits)
qed

text \<open>
  Claim C5. Every finding of the risk scanner has at most three examples, and each
  example occurs verbatim in the original text.
\<close>

theorem risk_examples_bounded_verbatim:
  "\<forall>r \<in> set (identify_risks text).
     length (examples r) \<le> 3 \<and> (\<forall>e \<in> set (examples r). str_in e text)"
proof
  fix r assume "r \<in> set (identify_risks text)"
  then obtain pattern where "examples r = find_example_clauses text pattern"
    using risks_from_patterns [of r "lower text" "text" "[]" risk_patterns]
    unfolding identify_risks_def Let_def by auto
  then show "length (examples r) \<le> 3 \<and> (\<forall>e \<in> set (examples r). str_in e text)"
    using find_example_clauses_bound find_example_clauses_verbatim
    by (simp add: str_in_sublist)
qed

theorem risk_examples_bounded_verbatim_witness:
  "identify_risks
     ''Indemnify A. Hold   Harmless B! we INDEMNIFY c?  indemnify d. indemnify e''
     = [\<lparr>description = ''You might be responsible for paying for damages or losses'',
          level = ''high'',
          examples = [''Indemnify A.'', ''we INDEMNIFY c?'', ''indemnify d.'']\<rparr>]
   \<and> length [''Indemnify A.'', ''we INDEMNIFY c?'', ''indemnify d.''] \<le> 3
   \<and> str_in ''we INDEMNIFY c?''
         ''Indemnify A. Hold   Harmless B! we INDEMNIFY c?  indemnify d. indemnify e''"
proof -
  let ?t = "''Indemnify A. Hold   Harmless B! we INDEMNIFY c?  indemnify d. indemnify e''"
  let ?r = "\<lparr>description = ''You might be responsible for paying for damages or losses'',
          level = ''high'',
          examples = [''Indemnify A.'', ''we INDEMNIFY c?'', ''indemnify d.'']\<rparr>"
  have e: "identify_risks ?t = [?r]" by code_simp
  then have m: "?r \<in> set (identify_risks ?t)" by simp
  from risk_examples_bounded_verbatim [of ?t] m
  have "length (examples ?r) \<le> 3 \<and> (\<forall>e \<in> set (examples ?r). str_in e ?t)" by blast
  then have "length [''Indemnify A.'', ''we INDEMNIFY c?'', ''indemnify d.''] \<le> 3
     \<and> str_in ''we INDEMNIFY c?'' ?t"
    by (simp del: str_in.simps)
  with e show ?thesis by blast
qed

subsection \<open>Summary generator\<close>

lemma checklist_other:
  "dt \<notin> {''Rental Agreement'', ''Loan Agreement'', ''Terms of Service''} \<Longrightarrow> checklist dt = []"
  by (simp add: checklist_def)

lemma checklist_known:
  "dt \<in> {''Rental Agreement'', ''Loan Agreement'', ''Terms of Service''} \<Longrightarrow>
   length (checklist dt) = 5"
  by (auto simp: checklist_def)

text \<open>
  Claim C8, as stated, fails: the heading of the checklist section is appended for every
  document type. The summary of an Employment Contract holds the line "Key things to pay
  attention to:" with no item under it.
\<close>

theorem summary_checklist_counterexample:
  "generate_summary id ''Employment Contract'' []
     = ''This is a Employment Contract that includes the following key sections:''
       @ [newline, newline, newline] @ ''Key things to pay attention to:'' @ [newline]"
  by code_simp

text \<open>
  Claim C8, amended. Every summary contains the heading line "Key things to pay attention
  to:". For Rental Agreement, Loan Agreement and Terms of Service the summary ends with
  that line followed by the five items of the type's checklist; for every other type
  (Employment Contract, Non-Disclosure Agreement, Purchase Agreement, Legal Document) it
  ends with the heading line and no item.
\<close>

theorem summary_checklist_items:
  "str_in ''Key things to pay attention to:'' (generate_summary sh dt secs)
   \<and> suffix ([newline] @ ''Key things to pay attention to:'' @ [newline]
              @ concat (map (\<lambda>item. item @ [newline]) (checklist dt)))
        (generate_summary sh dt secs)
   \<and> (dt \<in> {''Rental Agreement'', ''Loan Agreement'', ''Terms of Service''} \<longrightarrow>
        length (checklist dt) = 5)
   \<and> (dt \<notin> {''Rental Agreement'', ''Loan Agreement'', ''Terms of Service''} \<longrightarrow>
        checklist dt = []
        \<and> suffix ([newline] @ ''Key things to pay attention to:'' @ [newline])
             (generate_summary sh dt secs))"
proof -
  let ?h = "''Key things to pay attention to:''"
  let ?items = "concat (map (\<lambda>item. item @ [newline]) (checklist dt))"
  obtain pre where g: "generate_summary sh dt secs = pre @ [newline] @ ?h @ [newline] @ ?items"
    by (simp add: generate_summary_def)
  have a: "str_in ?h (generate_summary sh dt secs)"
  proof -
    have "generate_summary sh dt secs = (pre @ [newline]) @ ?h @ ([newline] @ ?items)"
      using g by simp
    then have "sublist ?h (generate_summary sh dt secs)"
      unfolding sublist_def by blast
    then show ?thesis by (simp only: str_in_sublist)
  qed
  have b: "suffix ([newline] @ ?h @ [newline] @ ?items) (generate_summary sh dt secs)"
    unfolding g by (rule suffixI) simp
  have c: "dt \<in> {''Rental Agreement'', ''Loan Agreement'', ''Terms of Service''} \<longrightarrow>
        length (checklist dt) = 5"
    using checklist_known by blast
  have d: "dt \<notin> {''Rental Agreement'', ''Loan Agreement'', ''Terms of Service''} \<longrightarrow>
        checklist dt = []
        \<and> suffix ([newline] @ ?h @ [newline]) (generate_summary sh dt secs)"
  proof
    assume n: "dt \<notin> {''Rental Agreement'', ''Loan Agreement'', ''Terms of Service''}"
    then have e: "checklist dt = []" by (rule checklist_other)
    with b show "checklist dt = []
        \<and> suffix ([newline] @ ?h @ [newline]) (generate_summary sh dt secs)"
      by simp
  qed
  show ?thesis
    by (rule conjI [OF a conjI [OF b conjI [OF c d]]])
qed

theorem summary_checklist_items_witness:
  "''Purchase Agreement'' \<notin> {''Rental Agreement'', ''Loan Agreement'', ''Terms of Service''}
   \<and> suffix ([newline] @ ''Key things to pay attention to:'' @ [newline])
        (generate_summary id ''Purchase Agreement'' [(''Payment'', ''in full'')])
   \<and> ''Loan Agreement'' \<in> {''Rental Agreement'', ''Loan Agreement'', ''Terms of Service''}
   \<and> length (checklist ''Loan Agreement'') = 5"
proof -
  have h1: "''Purchase Agreement'' \<notin> {''Rental Agreement'', ''Loan Agreement'', ''Terms of Service''}"
    by simp
  have h2: "''Loan Agreement'' \<in> {''Rental Agreement'', ''Loan Agreement'', ''Terms of Service''}"
    by simp
  note t1 = summary_checklist_items [of id "''Purchase Agreement''" "[(''Payment'', ''in full'')]"]
  have r1: "suffix ([newline] @ ''Key things to pay attention to:'' @ [newline])
        (generate_summary id ''Purchase Agreement'' [(''Payment'', ''in full'')])"
    by (rule conjunct2 [OF mp [OF conjunct2 [OF conjunct2 [OF conjunct2 [OF t1]]] h1]])
  note t2 = summary_checklist_items [of id "''Loan Agreement''" "[]"]
  have r2: "length (checklist ''Loan Agreement'') = 5"
    by (rule mp [OF conjunct1 [OF conjunct2 [OF conjunct2 [OF t2]]] h2])
  show ?thesis
    by (rule conjI [OF h1 conjI [OF r1 conjI [OF h2 r2]]])
qed

subsection \<open>Extraction failures\<close>

text \<open>
  Claim C3. A file whose extension, lower-cased, is none of pdf, docx and txt gives the
  failure result whose message is "Unsupported file type: " followed by that extension;
  and whenever extraction raises, the result is the failure carrying the message of the
  exception, with no analysis field.
\<close>

theorem process_document_failure:
  "(file_type_of (name file) \<notin> {''pdf'', ''docx'', ''txt''} \<longrightarrow>
      process_document lib file
        = Failure (''Unsupported file type: '' @ file_type_of (name file)))
   \<and> (extract_text_from_file lib file = Inl msg \<longrightarrow> process_document lib file = Failure msg)"
  by (simp add: process_document_def extract_text_from_file_def Let_def)

theorem process_document_failure_witness:
  "file_type_of ''Lease.final.XYZ'' = ''xyz''
   \<and> ''xyz'' \<notin> {''pdf'', ''docx'', ''txt''}
   \<and> process_document
        \<lparr>pdf_pages = (\<lambda>f. Inl ''EOF marker not found''), docx_paragraphs = (\<lambda>f. Inr f),
         decode_utf8 = (\<lambda>f. Inr (concat f)), shorten = id\<rparr>
        \<lparr>name = ''Lease.final.XYZ'', payload = [''Tenant pays rent.'']\<rparr>
       = Failure ''Unsupported file type: xyz''
   \<and> extract_text_from_file
        \<lparr>pdf_pages = (\<lambda>f. Inl ''EOF marker not found''), docx_paragraphs = (\<lambda>f. Inr f),
         decode_utf8 = (\<lambda>f. Inr (concat f)), shorten = id\<rparr>
        \<lparr>name = ''scan.PDF'', payload = [''Tenant pays rent.'']\<rparr>
       = Inl ''EOF marker not found''
   \<and> process_document
        \<lparr>pdf_pages = (\<lambda>f. Inl ''EOF marker not found''), docx_paragraphs = (\<lambda>f. Inr f),
         decode_utf8 = (\<lambda>f. Inr (concat f)), shorten = id\<rparr>
        \<lparr>name = ''scan.PDF'', payload = [''Tenant pays rent.'']\<rparr>
       = Failure ''EOF marker not found''"
proof -
  let ?lib = "\<lparr>pdf_pages = (\<lambda>f. Inl ''EOF marker not found''), docx_paragraphs = (\<lambda>f. Inr f),
         decode_utf8 = (\<lambda>f. Inr (concat f)), shorten = id\<rparr> :: string list library"
  let ?f1 = "\<lparr>name = ''Lease.final.XYZ'', payload = [''Tenant pays rent.'']\<rparr>"
  let ?f2 = "\<lparr>name = ''scan.PDF'', payload = [''Tenant pays rent.'']\<rparr>"
  have t: "file_type_of ''Lease.final.XYZ'' = ''xyz''" by code_simp
  have n: "''xyz'' \<notin> {''pdf'', ''docx'', ''txt''}" by simp
  have t2: "file_type_of ''scan.PDF'' = ''pdf''" by code_simp
  have e: "extract_text_from_file ?lib ?f2 = Inl ''EOF marker not found''"
    by (simp add: extract_text_from_file_def t2 extract_text_from_pdf_def)
  have n': "file_type_of (name ?f1) \<notin> {''pdf'', ''docx'', ''txt''}"
    using t n by simp
  have "process_document ?lib ?f1
          = Failure (''Unsupported file type: '' @ file_type_of (name ?f1))"
    by (rule mp [OF conjunct1 [OF process_document_failure [of ?f1 ?lib]] n'])
  then have r1: "process_document ?lib ?f1 = Failure ''Unsupported file type: xyz''"
    using t by simp
  have r2: "process_document ?lib ?f2 = Failure ''EOF marker not found''"
    by (rule mp [OF conjunct2 [OF process_document_failure [of ?f2 ?lib]] e])
  show ?thesis
    by (rule conjI [OF t conjI [OF n conjI [OF r1 conjI [OF e r2]]]])
qed

end
